theory Spec2Isabelle
  imports Complex_Main "HOL-Library.Word" "HOL-Library.AList"
begin

section \<open>The voice engine of Grey Hat AI (voice_engine.py)\<close>

text \<open>
  A shallow embedding of \<^verbatim>\<open>grey_hat_ai/voice_engine.py\<close>: the recording loop with its
  silence counter, the voice-activity check, the hand-over of a finished buffer to the
  recognition engine, the text-to-speech cache, and starting and stopping the listener.

  Conventions of the embedding:
  \<^item> Python exceptions are values of type \<open>error\<close>; a callee that may raise returns
    \<open>error + 'a\<close> with \<open>Inl\<close> for the exception.
  \<^item> A method returns, next to its result and the updated engine, the list of effects it
    performed in order: log lines, calls into the external engines, callbacks, threads.
  \<^item> Python \<open>float\<close> configuration values are rationals and their quotient is exact.
    This agrees with IEEE arithmetic whenever the exact quotient is representable, as for
    the defaults \<open>2.0 / 0.5\<close>.
  \<^item> The audio sample type is a parameter \<open>'s\<close> (numpy float32); a chunk is a list of
    samples.
\<close>

subsection \<open>Exceptions, effects and external collaborators\<close>

type_synonym byte = "8 word"

datatype error = KeyError | ZeroDivisionError | ExternalError string

datatype log_level = INFO | WARNING | ERROR

text \<open>
  A log line is recorded with its level and the fixed part of its message; the text of an
  interpolated exception is left out.
\<close>

datatype 's effect =
    Log log_level string
  | Transcribe "'s list"          \<comment> \<open>\<^verbatim>\<open>whisper_model.transcribe(audio_data, ...)\<close>\<close>
  | Generate string string        \<comment> \<open>\<^verbatim>\<open>generate(text=..., voice=Voice(voice_id=...))\<close>\<close>
  | SpeechDetected string         \<comment> \<open>\<^verbatim>\<open>on_speech_detected(text)\<close>\<close>
  | ListeningStarted              \<comment> \<open>\<^verbatim>\<open>on_listening_start()\<close>\<close>
  | ListeningStopped              \<comment> \<open>\<^verbatim>\<open>on_listening_stop()\<close>\<close>
  | ThreadStart                   \<comment> \<open>\<^verbatim>\<open>recording_thread.start()\<close>\<close>
  | ThreadJoin                    \<comment> \<open>\<^verbatim>\<open>recording_thread.join(timeout=2.0)\<close>\<close>

type_synonym 's whisper = "'s list \<Rightarrow> error + string list"
type_synonym vad_classifier = "byte list \<Rightarrow> int \<Rightarrow> error + bool"

record VoiceConfig =
  whisper_model_size :: string
  sample_rate :: int
  chunk_duration :: rat
  vad_aggressiveness :: int
  silence_threshold :: rat
  elevenlabs_voice_id :: string
  elevenlabs_stability :: rat
  elevenlabs_clarity :: rat
  elevenlabs_style :: rat
  audio_device :: "int option"

definition default_config :: VoiceConfig where
  "default_config =
     \<lparr> whisper_model_size = ''base'',
       sample_rate = 16000,
       chunk_duration = 1 / 2,
       vad_aggressiveness = 2,
       silence_threshold = 2,
       elevenlabs_voice_id = ''21m00Tcm4TlvDq8ikWAM'',
       elevenlabs_stability = 3 / 4,
       elevenlabs_clarity = 3 / 4,
       elevenlabs_style = 0,
       audio_device = None \<rparr>"

text \<open>
  The names the module imports and the builtins it calls. An import that failed is
  \<open>None\<close> (the module sets the name to \<^verbatim>\<open>None\<close>). \<open>pcm16\<close> is numpy's cast of one scaled
  float32 sample to int16, \<open>hash\<close> is Python's string hash.
\<close>

record 's py_env =
  sd_np :: bool
  WhisperModel :: "(string \<Rightarrow> error + 's whisper) option"
  webrtcvad :: "(int \<Rightarrow> error + vad_classifier) option"
  generate :: "(string \<Rightarrow> string \<Rightarrow> rat \<Rightarrow> rat \<Rightarrow> rat \<Rightarrow> error + byte list) option"
  set_api_key :: "(string \<Rightarrow> error option) option"
  pcm16 :: "'s \<Rightarrow> 16 word"
  hash :: "string \<Rightarrow> int"

record 's VoiceEngine =
  config :: VoiceConfig
  whisper_model :: "'s whisper option"
  vad :: "vad_classifier option"
  elevenlabs_configured :: bool
  is_listening :: bool
  recording_thread :: bool
  on_speech_detected :: "(string \<Rightarrow> error option) option"
  on_listening_start :: "error option option"
  on_listening_stop :: "error option option"
  tts_cache :: "(string \<times> byte list) list"

subsection \<open>Python helpers\<close>

text \<open>\<^verbatim>\<open>int(x)\<close> on a float truncates towards zero.\<close>

definition py_int :: "rat \<Rightarrow> int" where
  "py_int q = (if 0 \<le> q then \<lfloor>q\<rfloor> else \<lceil>q\<rceil>)"

text \<open>\<^verbatim>\<open>xs[:k]\<close>: a negative bound counts from the end.\<close>

definition py_slice_to :: "'a list \<Rightarrow> int \<Rightarrow> 'a list" where
  "py_slice_to xs k =
     (if 0 \<le> k then take (nat k) xs else take (nat (int (length xs) + k)) xs)"

text \<open>\<^verbatim>\<open>a or b\<close> on an optional string: \<^verbatim>\<open>None\<close> and the empty string are falsy.\<close>

definition py_or :: "string option \<Rightarrow> string \<Rightarrow> string" where
  "py_or a b = (case a of None \<Rightarrow> b | Some s \<Rightarrow> if s = [] then b else s)"

text \<open>
  \<^verbatim>\<open>str.strip()\<close> removes whitespace at both ends. Strings are byte strings here, so
  \<open>is_space\<close> knows the ASCII whitespace characters only; the whitespace code points
  beyond ASCII that Python also removes are outside the model.
\<close>

definition is_space :: "char \<Rightarrow> bool" where
  "is_space c = (of_char c \<in> {9, 10, 11, 12, 13, 28, 29, 30, 31, 32 :: nat})"

definition py_strip :: "string \<Rightarrow> string" where
  "py_strip s = rev (dropWhile is_space (rev (dropWhile is_space s)))"

fun py_join :: "string \<Rightarrow> string list \<Rightarrow> string" where
  "py_join sep [] = []"
| "py_join sep [x] = x"
| "py_join sep (x # y # ys) = x @ sep @ py_join sep (y # ys)"

definition digit_char :: "nat \<Rightarrow> char" where
  "digit_char d = char_of (48 + d)"

function str_nat :: "nat \<Rightarrow> string" where
  "str_nat n = (if n < 10 then [digit_char n] else str_nat (n div 10) @ [digit_char (n mod 10)])"
  by pat_completeness auto
termination
  by (relation "measure id") auto

declare str_nat.simps [simp del]

definition str_int :: "int \<Rightarrow> string" where
  "str_int i = (if i < 0 then CHR ''-'' # str_nat (nat (- i)) else str_nat (nat i))"

text \<open>\<^verbatim>\<open>ndarray.tobytes()\<close> of an int16 array: two bytes per sample, low byte first.\<close>

definition tobytes :: "16 word list \<Rightarrow> byte list" where
  "tobytes ws = concat (map (\<lambda>w. [ucast w, ucast (drop_bit 8 w)]) ws)"

subsection \<open>The recording loop: buffer and silence counter\<close>

text \<open>
  The two local variables of \<^verbatim>\<open>_recording_loop\<close>. The spec calls the state with an empty
  buffer Idle and the one with a non-empty buffer Accumulating.
\<close>

record 's loop_state =
  audio_buffer :: "'s list list"
  silence_chunks :: int

definition idle :: "'s loop_state" where
  "idle = \<lparr> audio_buffer = [], silence_chunks = 0 \<rparr>"

text \<open>
  \<^verbatim>\<open>max_silence_chunks = int(silence_threshold / chunk_duration)\<close>. The quotient is the
  exact one: where the float quotient is rounded below an integer that the exact
  quotient reaches (0.3 / 0.1), Python's threshold is one less than this one. The
  properties below use the default values and the comparison with 1 only, where both
  agree.
\<close>

definition max_silence_chunks :: "VoiceConfig \<Rightarrow> error + int" where
  "max_silence_chunks cfg =
     (if chunk_duration cfg = 0 then Inl ZeroDivisionError
      else Inr (py_int (silence_threshold cfg / chunk_duration cfg)))"

text \<open>
  One pass of the loop body after the chunk has been classified (lines 246 to 258): the
  new state, and the buffer handed to \<^verbatim>\<open>_process_audio_buffer\<close> if there is one.
\<close>

definition loop_step ::
  "int \<Rightarrow> 's loop_state \<Rightarrow> 's list \<Rightarrow> bool \<Rightarrow> 's loop_state \<times> 's list list option" where
  "loop_step max_silence st chunk speech =
     (let st1 =
        (if speech
         then \<lparr> audio_buffer = audio_buffer st @ [chunk], silence_chunks = 0 \<rparr>
         else \<lparr> audio_buffer =
                  (if audio_buffer st \<noteq> [] then audio_buffer st @ [chunk] else audio_buffer st),
                silence_chunks = silence_chunks st + 1 \<rparr>)
      in if audio_buffer st1 \<noteq> [] \<and> silence_chunks st1 \<ge> max_silence
         then (\<lparr> audio_buffer = [], silence_chunks = 0 \<rparr>, Some (audio_buffer st1))
         else (st1, None))"

text \<open>
  The accumulator fed with a stream of classified frames: the final state and the
  buffers emitted, in order.
\<close>

fun feed_frames ::
  "int \<Rightarrow> 's loop_state \<Rightarrow> ('s list \<times> bool) list \<Rightarrow> 's loop_state \<times> 's list list list" where
  "feed_frames max_silence st [] = (st, [])"
| "feed_frames max_silence st ((chunk, speech) # fs) =
     (case loop_step max_silence st chunk speech of
        (st1, out) \<Rightarrow>
          (case feed_frames max_silence st1 fs of
             (st2, outs) \<Rightarrow> (st2, (case out of None \<Rightarrow> [] | Some b \<Rightarrow> [b]) @ outs)))"

subsection \<open>Voice activity: \<^verbatim>\<open>_is_speech\<close>\<close>

text \<open>
  \<^verbatim>\<open>frame_size = int(sample_rate * frame_duration / 1000)\<close> with \<^verbatim>\<open>frame_duration = 30\<close>.
  The quotient is exact here; Python's float quotient truncates to the same integer for
  every product below \<open>2 ^ 53\<close>.
\<close>

definition frame_size :: "VoiceConfig \<Rightarrow> int" where
  "frame_size cfg = py_int (of_int (sample_rate cfg * 30) / 1000)"

text \<open>
  The result and the log lines written. Without a classifier every chunk is speech; a
  chunk shorter than one frame is not speech; otherwise the classifier sees the first
  frame only, and an exception it raises is logged and answered with speech.
\<close>

definition is_speech :: "'s VoiceEngine \<Rightarrow> byte list \<Rightarrow> bool \<times> 's effect list" where
  "is_speech eng audio_bytes =
     (case vad eng of
        None \<Rightarrow> (True, [])
      | Some v \<Rightarrow>
          (if int (length audio_bytes) < frame_size (config eng) * 2 then (False, [])
           else
             (case v (py_slice_to audio_bytes (frame_size (config eng) * 2))
                     (sample_rate (config eng)) of
                Inl e \<Rightarrow> (True, [Log ERROR ''VAD error''])
              | Inr b \<Rightarrow> (b, []))))"

subsection \<open>Recognition: \<^verbatim>\<open>_transcribe_audio\<close> and \<^verbatim>\<open>_process_audio_buffer\<close>\<close>

definition transcribe_audio :: "'s VoiceEngine \<Rightarrow> 's list \<Rightarrow> string \<times> 's effect list" where
  "transcribe_audio eng audio_data =
     (case whisper_model eng of
        None \<Rightarrow> ([], [])
      | Some w \<Rightarrow>
          (case w audio_data of
             Inl e \<Rightarrow> ([], [Transcribe audio_data, Log ERROR ''Transcription error''])
           | Inr segments \<Rightarrow> (py_strip (py_join '' '' segments), [Transcribe audio_data])))"

text \<open>
  The first component is the exception that leaves the method, if any: every exception
  raised in the body is caught and logged, so it is \<open>None\<close> on every path.
  \<^verbatim>\<open>np.concatenate\<close> of the chunks is \<open>concat\<close>.
\<close>

definition process_audio_buffer ::
  "'s VoiceEngine \<Rightarrow> 's list list \<Rightarrow> error option \<times> 's effect list" where
  "process_audio_buffer eng buf =
     (if buf = [] then (None, [])
      else
        (case transcribe_audio eng (concat buf) of
           (text, effs) \<Rightarrow>
             (if text \<noteq> [] \<and> py_strip text \<noteq> []
              then
                (case on_speech_detected eng of
                   None \<Rightarrow> (None, effs)
                 | Some cb \<Rightarrow>
                     (case cb (py_strip text) of
                        None \<Rightarrow> (None, effs @ [SpeechDetected (py_strip text)])
                      | Some e \<Rightarrow>
                          (None, effs @ [SpeechDetected (py_strip text),
                                         Log ERROR ''Error processing audio buffer''])))
              else (None, effs))))"

subsection \<open>The recording loop\<close>

text \<open>
  What \<^verbatim>\<open>audio_queue.get(timeout=0.1)\<close> gave on each pass made while \<^verbatim>\<open>is_listening\<close> was
  true: a chunk, or \<^verbatim>\<open>queue.Empty\<close>.
\<close>

datatype 'c queue_get = Got 'c | QueueEmpty

datatype loop_exit =
    Stopped                 \<comment> \<open>the \<^verbatim>\<open>while\<close> condition became false\<close>
  | Broke error             \<comment> \<open>\<^verbatim>\<open>except Exception\<close> in the loop body: logged, \<^verbatim>\<open>break\<close>\<close>
  | StreamFailed error      \<comment> \<open>opening the input stream raised: logged\<close>
  | Crashed error           \<comment> \<open>an exception left \<^verbatim>\<open>_recording_loop\<close>\<close>

record 's loop_result =
  final_state :: "'s loop_state"
  utterances :: "'s list list list"
  effects :: "'s effect list"
  exit_reason :: loop_exit

fun recording_iterations ::
  "'s py_env \<Rightarrow> 's VoiceEngine \<Rightarrow> int \<Rightarrow> 's loop_state \<Rightarrow> 's list queue_get list
     \<Rightarrow> 's loop_result" where
  "recording_iterations env eng max_silence st [] =
     \<lparr> final_state = st, utterances = [], effects = [], exit_reason = Stopped \<rparr>"
| "recording_iterations env eng max_silence st (QueueEmpty # qs) =
     recording_iterations env eng max_silence st qs"
| "recording_iterations env eng max_silence st (Got chunk # qs) =
     (case is_speech eng (tobytes (map (pcm16 env) chunk)) of
        (speech, effs1) \<Rightarrow>
          (case loop_step max_silence st chunk speech of
             (st1, None) \<Rightarrow>
               (let r = recording_iterations env eng max_silence st1 qs
                in r\<lparr> effects := effs1 @ effects r \<rparr>)
           | (st1, Some buf) \<Rightarrow>
               (case process_audio_buffer eng buf of
                  (Some e, effs2) \<Rightarrow>
                    \<lparr> final_state =
                        \<lparr> audio_buffer = buf,
                          silence_chunks = (if speech then 0 else silence_chunks st + 1) \<rparr>,
                      utterances = [buf],
                      effects = effs1 @ effs2 @ [Log ERROR ''Error in recording loop''],
                      exit_reason = Broke e \<rparr>
                | (None, effs2) \<Rightarrow>
                    (let r = recording_iterations env eng max_silence st1 qs
                     in r\<lparr> utterances := buf # utterances r,
                           effects := effs1 @ effs2 @ effects r \<rparr>))))"

text \<open>
  \<open>stream_open\<close> is the outcome of entering \<^verbatim>\<open>sd.InputStream(...)\<close>. The division that
  computes the threshold stands before the \<^verbatim>\<open>try\<close>, so its exception leaves the method.
\<close>

definition recording_loop ::
  "'s py_env \<Rightarrow> 's VoiceEngine \<Rightarrow> error option \<Rightarrow> 's list queue_get list \<Rightarrow> 's loop_result" where
  "recording_loop env eng stream_open qs =
     (case max_silence_chunks (config eng) of
        Inl e \<Rightarrow>
          \<lparr> final_state = idle, utterances = [], effects = [], exit_reason = Crashed e \<rparr>
      | Inr max_silence \<Rightarrow>
          (case stream_open of
             Some e \<Rightarrow>
               \<lparr> final_state = idle, utterances = [],
                 effects = [Log ERROR ''Error starting audio stream''],
                 exit_reason = StreamFailed e \<rparr>
           | None \<Rightarrow> recording_iterations env eng max_silence idle qs))"

subsection \<open>Construction: \<^verbatim>\<open>__init__\<close> and \<^verbatim>\<open>_initialize_components\<close>\<close>

text \<open>
  One \<^verbatim>\<open>try\<close> around both initialisations: when loading the Whisper model raises, the
  classifier is not created either. Nothing here looks at the sample rate or at the
  chunk duration.
\<close>

definition initialize_components ::
  "'s py_env \<Rightarrow> 's VoiceEngine \<Rightarrow> 's VoiceEngine \<times> 's effect list" where
  "initialize_components env eng =
     (let whisper_step =
        (case WhisperModel env of
           None \<Rightarrow> Inr (eng, [Log WARNING ''faster-whisper not available, STT disabled''])
         | Some ctor \<Rightarrow>
             (case ctor (whisper_model_size (config eng)) of
                Inl e \<Rightarrow> Inl [Log INFO ''Loading Whisper model'']
              | Inr w \<Rightarrow>
                  Inr (eng\<lparr> whisper_model := Some w \<rparr>,
                       [Log INFO ''Loading Whisper model'',
                        Log INFO ''Whisper model loaded successfully''])))
      in case whisper_step of
           Inl effs \<Rightarrow> (eng, effs @ [Log ERROR ''Error initializing voice components''])
         | Inr (eng1, effs) \<Rightarrow>
             (case webrtcvad env of
                None \<Rightarrow> (eng1, effs @ [Log WARNING ''webrtcvad not available, VAD disabled''])
              | Some ctor \<Rightarrow>
                  (case ctor (vad_aggressiveness (config eng1)) of
                     Inl e \<Rightarrow>
                       (eng1, effs @ [Log ERROR ''Error initializing voice components''])
                   | Inr v \<Rightarrow>
                       (eng1\<lparr> vad := Some v \<rparr>,
                        effs @ [Log INFO ''Voice Activity Detection initialized'']))))"

definition init :: "'s py_env \<Rightarrow> VoiceConfig option \<Rightarrow> 's VoiceEngine \<times> 's effect list" where
  "init env cfg =
     initialize_components env
       \<lparr> config = (case cfg of None \<Rightarrow> default_config | Some c \<Rightarrow> c),
         whisper_model = None,
         vad = None,
         elevenlabs_configured = False,
         is_listening = False,
         recording_thread = False,
         on_speech_detected = None,
         on_listening_start = None,
         on_listening_stop = None,
         tts_cache = [] \<rparr>"

definition set_elevenlabs_api_key ::
  "'s py_env \<Rightarrow> 's VoiceEngine \<Rightarrow> string \<Rightarrow> bool \<times> 's effect list \<times> 's VoiceEngine" where
  "set_elevenlabs_api_key env eng api_key =
     (case set_api_key env of
        None \<Rightarrow> (False, [Log ERROR ''elevenlabs package not available''], eng)
      | Some f \<Rightarrow>
          (case f api_key of
             Some e \<Rightarrow> (False, [Log ERROR ''Failed to configure Eleven Labs API''], eng)
           | None \<Rightarrow>
               (True, [Log INFO ''Eleven Labs API configured successfully''],
                eng\<lparr> elevenlabs_configured := True \<rparr>)))"

subsection \<open>Starting and stopping the listener\<close>

text \<open>
  The first component is the exception that leaves the method: only a callback can raise
  here, after the state has been changed.
\<close>

definition start_listening ::
  "'s py_env \<Rightarrow> 's VoiceEngine \<Rightarrow> (string \<Rightarrow> error option) option
     \<Rightarrow> error option \<times> 's effect list \<times> 's VoiceEngine" where
  "start_listening env eng callback =
     (if is_listening eng then (None, [Log WARNING ''Already listening''], eng)
      else if whisper_model eng = None
      then (None, [Log ERROR ''Whisper model not available''], eng)
      else if \<not> sd_np env
      then (None, [Log ERROR ''sounddevice or numpy not available''], eng)
      else
        (let eng1 = (case callback of None \<Rightarrow> eng
                     | Some cb \<Rightarrow> eng\<lparr> on_speech_detected := Some cb \<rparr>);
             eng2 = eng1\<lparr> is_listening := True, recording_thread := True \<rparr>
         in case on_listening_start eng2 of
              None \<Rightarrow> (None, [ThreadStart, Log INFO ''Started listening for speech''], eng2)
            | Some None \<Rightarrow>
                (None, [ThreadStart, ListeningStarted,
                        Log INFO ''Started listening for speech''], eng2)
            | Some (Some e) \<Rightarrow> (Some e, [ThreadStart, ListeningStarted], eng2)))"

definition stop_listening ::
  "'s VoiceEngine \<Rightarrow> error option \<times> 's effect list \<times> 's VoiceEngine" where
  "stop_listening eng =
     (if \<not> is_listening eng then (None, [], eng)
      else
        (let eng1 = eng\<lparr> is_listening := False \<rparr>;
             joined = (if recording_thread eng1 then [ThreadJoin] else [])
         in case on_listening_stop eng1 of
              None \<Rightarrow> (None, joined @ [Log INFO ''Stopped listening for speech''], eng1)
            | Some None \<Rightarrow>
                (None, joined @ [ListeningStopped,
                                 Log INFO ''Stopped listening for speech''], eng1)
            | Some (Some e) \<Rightarrow> (Some e, joined @ [ListeningStopped], eng1)))"

subsection \<open>Text to speech and its cache\<close>

text \<open>
  \<^verbatim>\<open>tts_cache\<close> is a Python dict, which keeps its keys in insertion order: an association
  list with distinct keys. \<open>AList.update\<close> is \<^verbatim>\<open>d[k] = v\<close>: it replaces the value of a key
  in place and appends a new key at the end. \<^verbatim>\<open>del d[k]\<close> raises on a missing key.
\<close>

definition dict_del ::
  "string \<Rightarrow> (string \<times> 'v) list \<Rightarrow> error + (string \<times> 'v) list" where
  "dict_del k d = (if k \<in> fst ` set d then Inr (AList.delete k d) else Inl KeyError)"

text \<open>
  \<^verbatim>\<open>for key in oldest_keys: del self.tts_cache[key]\<close>: the exception, if any, and the dict
  as the loop left it.
\<close>

fun del_keys :: "string list \<Rightarrow> (string \<times> 'v) list \<Rightarrow> error option \<times> (string \<times> 'v) list" where
  "del_keys [] d = (None, d)"
| "del_keys (k # ks) d =
     (case dict_del k d of Inl e \<Rightarrow> (Some e, d) | Inr d1 \<Rightarrow> del_keys ks d1)"

text \<open>\<^verbatim>\<open>cache_key = f"{voice_id}:{hash(text)}"\<close>\<close>

definition cache_key :: "'s py_env \<Rightarrow> string \<Rightarrow> string \<Rightarrow> string" where
  "cache_key env voice_id text = voice_id @ '':'' @ str_int (hash env text)"

definition text_to_speech ::
  "'s py_env \<Rightarrow> 's VoiceEngine \<Rightarrow> string \<Rightarrow> string option
     \<Rightarrow> byte list option \<times> 's effect list \<times> 's VoiceEngine" where
  "text_to_speech env eng text voice_id =
     (case (if elevenlabs_configured eng then generate env else None) of
        None \<Rightarrow> (None, [Log ERROR ''Eleven Labs not configured or available''], eng)
      | Some gen \<Rightarrow>
          (let voice = py_or voice_id (elevenlabs_voice_id (config eng));
               key = cache_key env voice text
           in case map_of (tts_cache eng) key of
                Some audio \<Rightarrow> (Some audio, [], eng)
              | None \<Rightarrow>
                  (case gen text voice (elevenlabs_stability (config eng))
                            (elevenlabs_clarity (config eng)) (elevenlabs_style (config eng)) of
                     Inl e \<Rightarrow> (None, [Generate text voice, Log ERROR ''TTS error''], eng)
                   | Inr audio \<Rightarrow>
                       (let cache1 = AList.update key audio (tts_cache eng)
                        in if length cache1 > 50
                           then
                             (case del_keys (take 10 (map fst cache1)) cache1 of
                                (Some e, cache2) \<Rightarrow>
                                  (None, [Generate text voice, Log ERROR ''TTS error''],
                                   eng\<lparr> tts_cache := cache2 \<rparr>)
                              | (None, cache2) \<Rightarrow>
                                  (Some audio, [Generate text voice],
                                   eng\<lparr> tts_cache := cache2 \<rparr>))
                           else (Some audio, [Generate text voice],
                                 eng\<lparr> tts_cache := cache1 \<rparr>)))))"

text \<open>
  A sequence of \<^verbatim>\<open>text_to_speech\<close> calls on one engine. Each call comes with the
  environment it runs in, so the synthesis engine may answer differently from call to call.
\<close>

fun tts_calls ::
  "'s VoiceEngine \<Rightarrow> ('s py_env \<times> string \<times> string option) list \<Rightarrow> 's VoiceEngine" where
  "tts_calls eng [] = eng"
| "tts_calls eng ((env, text, voice_id) # cs) =
     tts_calls (snd (snd (text_to_speech env eng text voice_id))) cs"

subsection \<open>Vocabulary of the properties\<close>

text \<open>The chunks a run of the loop took from the queue, and their classification.\<close>

fun chunks_of :: "'c queue_get list \<Rightarrow> 'c list" where
  "chunks_of [] = []"
| "chunks_of (QueueEmpty # qs) = chunks_of qs"
| "chunks_of (Got c # qs) = c # chunks_of qs"

definition classified ::
  "'s py_env \<Rightarrow> 's VoiceEngine \<Rightarrow> 's list queue_get list \<Rightarrow> ('s list \<times> bool) list" where
  "classified env eng qs =
     map (\<lambda>c. (c, fst (is_speech eng (tobytes (map (pcm16 env) c))))) (chunks_of qs)"

text \<open>
  The recognition engine fails on an audio buffer: it is not available, or its call
  raises.
\<close>

definition recognition_fails :: "'s VoiceEngine \<Rightarrow> 's list \<Rightarrow> bool" where
  "recognition_fails eng audio_data =
     (case whisper_model eng of None \<Rightarrow> True | Some w \<Rightarrow> isl (w audio_data))"

definition is_speech_event :: "'s effect \<Rightarrow> bool" where
  "is_speech_event x = (case x of SpeechDetected t \<Rightarrow> True | _ \<Rightarrow> False)"

text \<open>The cache key of a call, and what the synthesis engine answers to it.\<close>

definition call_key :: "VoiceConfig \<Rightarrow> 's py_env \<times> string \<times> string option \<Rightarrow> string" where
  "call_key cfg c =
     (case c of (env, text, voice_id) \<Rightarrow>
        cache_key env (py_or voice_id (elevenlabs_voice_id cfg)) text)"

definition synthesis_result ::
  "VoiceConfig \<Rightarrow> 's py_env \<times> string \<times> string option \<Rightarrow> byte list option" where
  "synthesis_result cfg c =
     (case c of (env, text, voice_id) \<Rightarrow>
        (case generate env of
           None \<Rightarrow> None
         | Some gen \<Rightarrow>
             (case gen text (py_or voice_id (elevenlabs_voice_id cfg)) (elevenlabs_stability cfg)
                       (elevenlabs_clarity cfg) (elevenlabs_style cfg) of
                Inl e \<Rightarrow> None
              | Inr audio \<Rightarrow> Some audio)))"

definition call_entry ::
  "VoiceConfig \<Rightarrow> 's py_env \<times> string \<times> string option \<Rightarrow> string \<times> byte list" where
  "call_entry cfg c = (call_key cfg c, the (synthesis_result cfg c))"

subsection \<open>Example collaborators\<close>

text \<open>
  A classifier with the contract the source comment gives for the external one: frames of
  10, 20 or 30 ms at 8, 16 or 48 kHz, anything else raises. It calls a frame speech when
  some byte of it is not zero.
\<close>

definition strict_vad :: vad_classifier where
  "strict_vad frame rate =
     (if rate \<in> {8000, 16000, 48000}
         \<and> int (length frame) \<in> {2 * (rate * 10 div 1000), 2 * (rate * 20 div 1000),
                                  2 * (rate * 30 div 1000)}
      then Inr (frame \<noteq> replicate (length frame) 0)
      else Inl (ExternalError ''Error while processing frame''))"

definition failing_whisper :: "int whisper" where
  "failing_whisper audio_data = Inl (ExternalError ''recognition engine down'')"

definition hello_whisper :: "int whisper" where
  "hello_whisper audio_data = Inr ['' hello'', ''world '']"

definition failing_generate ::
  "string \<Rightarrow> string \<Rightarrow> rat \<Rightarrow> rat \<Rightarrow> rat \<Rightarrow> error + byte list" where
  "failing_generate text voice stability clarity style = Inl (ExternalError ''quota exceeded'')"

definition demo_env :: "int py_env" where
  "demo_env =
     \<lparr> sd_np = True,
       WhisperModel = Some (\<lambda>size. Inr hello_whisper),
       webrtcvad = Some (\<lambda>aggressiveness. Inr strict_vad),
       generate = Some (\<lambda>text voice stability clarity style. Inr (map of_char text)),
       set_api_key = Some (\<lambda>api_key. None),
       pcm16 = word_of_int,
       hash = (\<lambda>text. int (length text)) \<rparr>"

text \<open>An engine as \<^verbatim>\<open>VoiceEngine()\<close> builds it, and one with the synthesis key set.\<close>

definition demo_engine :: "int VoiceEngine" where
  "demo_engine = fst (init demo_env None)"

definition demo_tts_engine :: "int VoiceEngine" where
  "demo_tts_engine = snd (snd (set_elevenlabs_api_key demo_env demo_engine ''key''))"

definition demo_calls :: "(int py_env \<times> string \<times> string option) list" where
  "demo_calls = map (\<lambda>i. (demo_env, ''hi'', Some (replicate (Suc i) CHR ''v''))) [0..<51]"

text \<open>
  An environment without the classifier module, a configuration whose silence threshold
  is zero, one with a sample rate the classifier does not support, an engine whose
  recognition engine always raises and which has no classifier, and the engine built with
  the unsupported rate.
\<close>

definition no_vad_env :: "int py_env" where
  "no_vad_env = demo_env\<lparr> webrtcvad := None \<rparr>"

definition zero_threshold_config :: VoiceConfig where
  "zero_threshold_config = default_config\<lparr> silence_threshold := 0 \<rparr>"

definition odd_rate_config :: VoiceConfig where
  "odd_rate_config = default_config\<lparr> sample_rate := 44100 \<rparr>"

definition deaf_engine :: "int VoiceEngine" where
  "deaf_engine = demo_engine\<lparr> whisper_model := Some failing_whisper, vad := None \<rparr>"

definition odd_rate_engine :: "int VoiceEngine" where
  "odd_rate_engine = fst (init demo_env (Some odd_rate_config))"

section \<open>Properties\<close>

subsection \<open>The recording loop is the accumulator fed with the classified chunks\<close>

lemma process_audio_buffer_returns: "fst (process_audio_buffer eng buf) = None"
  by (simp add: process_audio_buffer_def split: prod.splits option.splits)

lemma recording_iterations_feed:
  "final_state (recording_iterations env eng m st qs)
     = fst (feed_frames m st (classified env eng qs))
   \<and> utterances (recording_iterations env eng m st qs)
     = snd (feed_frames m st (classified env eng qs))
   \<and> exit_reason (recording_iterations env eng m st qs) = Stopped"
proof (induction env eng m st qs rule: recording_iterations.induct)
  case (1 env eng m st)
  then show ?case by (simp add: classified_def)
next
  case (2 env eng m st qs)
  then show ?case by (simp add: classified_def)
next
  case (3 env eng m st chunk qs)
  obtain sp e1 where sp: "is_speech eng (tobytes (map (pcm16 env) chunk)) = (sp, e1)"
    by (cases "is_speech eng (tobytes (map (pcm16 env) chunk))")
  obtain st1 out where ls: "loop_step m st chunk sp = (st1, out)"
    by (cases "loop_step m st chunk sp")
  show ?case
  proof (cases out)
    case None
    with 3(1)[OF sp[symmetric] ls[symmetric]] sp ls show ?thesis
      by (simp add: classified_def Let_def split: prod.splits)
  next
    case (Some buf)
    obtain e2 where pb: "process_audio_buffer eng buf = (None, e2)"
      using process_audio_buffer_returns[of eng buf]
      by (cases "process_audio_buffer eng buf") auto
    with 3(2)[OF sp[symmetric] ls[symmetric] Some pb[symmetric]] sp ls Some show ?thesis
      by (simp add: classified_def Let_def split: prod.splits)
  qed
qed

subsection \<open>C1: two worked streams at a threshold of four frames\<close>

text \<open>
  Claim C1. With the default configuration (chunk duration 0.5 s, silence threshold
  2.0 s) the threshold is 4 frames. Fed from the idle state with three speech frames,
  four non-speech frames, two speech frames and four non-speech frames, the accumulator
  emits exactly two utterances: the first holds the three speech frames and the four
  non-speech frames after them (7 frames), the second the remaining 6 frames. Fed with
  one speech frame and four non-speech frames it emits exactly one utterance of these 5
  frames and is idle again, with an empty buffer and a silence counter of zero.
\<close>

theorem segment_streams_threshold_four:
  "max_silence_chunks default_config = Inr 4
   \<and> feed_frames 4 idle
       [(a1, True), (a2, True), (a3, True),
        (b1, False), (b2, False), (b3, False), (b4, False),
        (c1, True), (c2, True),
        (d1, False), (d2, False), (d3, False), (d4, False)]
     = (\<lparr> audio_buffer = [], silence_chunks = 0 \<rparr>,
        [[a1, a2, a3, b1, b2, b3, b4], [c1, c2, d1, d2, d3, d4]])
   \<and> feed_frames 4 idle
       [(a1, True), (b1, False), (b2, False), (b3, False), (b4, False)]
     = (\<lparr> audio_buffer = [], silence_chunks = 0 \<rparr>, [[a1, b1, b2, b3, b4]])"
  by (simp add: max_silence_chunks_def default_config_def py_int_def loop_step_def idle_def)

subsection \<open>The cache as an insertion-ordered dict\<close>

lemma delete_length_less: "k \<in> fst ` set d \<Longrightarrow> length (AList.delete k d) < length d"
proof (induction d)
  case Nil
  then show ?case by simp
next
  case (Cons p d)
  have le: "length (AList.delete k d) \<le> length d"
    by (simp add: AList.delete_eq)
  show ?case
  proof (cases "fst p = k")
    case True
    with le show ?thesis by (cases p) (simp add: less_Suc_eq_le)
  next
    case False
    with Cons show ?thesis by (cases p) auto
  qed
qed

lemma dict_del_length: "dict_del k d = Inr d1 \<Longrightarrow> length d1 < length d"
proof -
  assume a: "dict_del k d = Inr d1"
  have k: "k \<in> fst ` set d" using a by (simp add: dict_del_def split: if_splits)
  with a have "d1 = AList.delete k d" by (simp add: dict_del_def)
  with delete_length_less[OF k] show ?thesis by simp
qed

lemma del_keys_length: "del_keys ks d = (r, d1) \<Longrightarrow> length d1 \<le> length d"
proof (induction ks arbitrary: d)
  case Nil
  then show ?case by simp
next
  case (Cons k ks)
  show ?case
  proof (cases "dict_del k d")
    case (Inl e)
    with Cons.prems show ?thesis by simp
  next
    case (Inr d2)
    with Cons.prems have "del_keys ks d2 = (r, d1)" by simp
    then have "length d1 \<le> length d2" by (rule Cons.IH)
    with dict_del_length[OF Inr] show ?thesis by simp
  qed
qed

lemma del_keys_first:
  assumes "k \<in> fst ` set d" and "del_keys (k # ks) d = (r, d1)"
  shows "length d1 < length d"
proof -
  from assms(1) have dd: "dict_del k d = Inr (AList.delete k d)"
    by (simp add: dict_del_def)
  with assms(2) have "del_keys ks (AList.delete k d) = (r, d1)" by simp
  then have "length d1 \<le> length (AList.delete k d)" by (rule del_keys_length)
  with delete_length_less[OF assms(1)] show ?thesis by simp
qed

lemma length_update_le: "length (AList.update k v d) \<le> Suc (length d)"
  by (induction d) auto

lemma text_to_speech_bound:
  assumes "length (tts_cache eng) \<le> 50"
  shows "length (tts_cache (snd (snd (text_to_speech env eng text voice_id)))) \<le> 50"
proof -
  define key where "key = cache_key env (py_or voice_id (elevenlabs_voice_id (config eng))) text"
  have evict: "length d2 \<le> 50"
    if "del_keys (take 10 (map fst (AList.update key audio (tts_cache eng))))
          (AList.update key audio (tts_cache eng)) = (r, d2)" for audio r d2
  proof -
    let ?c1 = "AList.update key audio (tts_cache eng)"
    have ne: "?c1 \<noteq> []" by (cases "tts_cache eng") auto
    then obtain p ps where c1: "?c1 = p # ps" by (cases ?c1) auto
    then have tk: "take 10 (map fst ?c1) = fst p # take 9 (map fst ps)" by simp
    have "fst p \<in> fst ` set ?c1" using c1 by simp
    from del_keys_first[OF this that[unfolded tk]] have "length d2 < length ?c1" .
    moreover have "length ?c1 \<le> 51" using length_update_le[of key audio "tts_cache eng"] assms by simp
    ultimately show ?thesis by simp
  qed
  show ?thesis
    unfolding text_to_speech_def key_def[symmetric] Let_def
    using assms evict
    by (auto split: option.splits sum.splits prod.splits)
qed

lemma tts_calls_bound:
  "length (tts_cache eng) \<le> 50 \<Longrightarrow> length (tts_cache (tts_calls eng calls)) \<le> 50"
proof (induction calls arbitrary: eng)
  case Nil
  then show ?case by simp
next
  case (Cons c calls)
  obtain env t v where c: "c = (env, t, v)" by (cases c) auto
  show ?case using Cons.IH[OF text_to_speech_bound[OF Cons.prems]] c by simp
qed


lemma update_append: "k \<notin> fst ` set d \<Longrightarrow> AList.update k v d = d @ [(k, v)]"
  by (induction d) auto

lemma del_keys_prefix:
  "distinct (map fst d) \<Longrightarrow> del_keys (take n (map fst d)) d = (None, drop n d)"
proof (induction d arbitrary: n)
  case Nil
  then show ?case by simp
next
  case (Cons p ps)
  show ?case
  proof (cases n)
    case 0
    then show ?thesis by simp
  next
    case (Suc m)
    from Cons.prems have notin: "fst p \<notin> fst ` set ps" and dist: "distinct (map fst ps)"
      by auto
    have "dict_del (fst p) (p # ps) = Inr ps"
      using notin by (cases p) (simp add: dict_del_def)
    with Cons.IH[OF dist, of m] Suc show ?thesis by simp
  qed
qed

lemma text_to_speech_miss:
  assumes conf: "elevenlabs_configured eng"
    and syn: "synthesis_result (config eng) (env, t, v) = Some audio"
    and miss: "call_key (config eng) (env, t, v) \<notin> fst ` set (tts_cache eng)"
    and dist: "distinct (map fst (tts_cache eng))"
  shows "snd (snd (text_to_speech env eng t v))
         = eng\<lparr> tts_cache :=
             (if length (tts_cache eng) \<ge> 50
              then drop 10 (tts_cache eng @ [(call_key (config eng) (env, t, v), audio)])
              else tts_cache eng @ [(call_key (config eng) (env, t, v), audio)]) \<rparr>"
proof -
  let ?key = "call_key (config eng) (env, t, v)"
  let ?c1 = "tts_cache eng @ [(?key, audio)]"
  from syn obtain gen where gen: "generate env = Some gen"
    and res: "gen t (py_or v (elevenlabs_voice_id (config eng))) (elevenlabs_stability (config eng))
                (elevenlabs_clarity (config eng)) (elevenlabs_style (config eng)) = Inr audio"
    by (auto simp: synthesis_result_def split: option.splits sum.splits)
  have key: "cache_key env (py_or v (elevenlabs_voice_id (config eng))) t = ?key"
    by (simp add: call_key_def)
  have look: "map_of (tts_cache eng) ?key = None"
    using miss by (simp add: map_of_eq_None_iff)
  have upd: "AList.update ?key audio (tts_cache eng) = ?c1"
    using miss by (rule update_append)
  have d1: "distinct (map fst ?c1)" using dist miss by auto
  have ev: "del_keys (take 10 (map fst ?c1)) ?c1 = (None, drop 10 ?c1)"
    using d1 by (rule del_keys_prefix)
  show ?thesis
    unfolding text_to_speech_def Let_def key
    using conf gen res look ev
    by (simp add: upd del: map_append)
qed


lemma tts_calls_append: "tts_calls eng (xs @ ys) = tts_calls (tts_calls eng xs) ys"
  by (induction xs arbitrary: eng) auto

lemma tts_calls_fill:
  assumes "elevenlabs_configured eng"
    and "\<forall>c \<in> set calls. synthesis_result (config eng) c \<noteq> None"
    and "distinct (map fst (tts_cache eng) @ map (call_key (config eng)) calls)"
    and "length (tts_cache eng) + length calls \<le> 50"
  shows "tts_calls eng calls
         = eng\<lparr> tts_cache := tts_cache eng @ map (call_entry (config eng)) calls \<rparr>"
  using assms
proof (induction calls arbitrary: eng)
  case Nil
  then show ?case by simp
next
  case (Cons c calls)
  obtain env t v where c: "c = (env, t, v)" by (cases c) auto
  from Cons.prems(2) c obtain audio where syn: "synthesis_result (config eng) (env, t, v) = Some audio"
    by auto
  from Cons.prems(3) c have miss: "call_key (config eng) (env, t, v) \<notin> fst ` set (tts_cache eng)"
    and dist: "distinct (map fst (tts_cache eng))"
    by auto
  let ?eng1 = "eng\<lparr> tts_cache := tts_cache eng @ [(call_key (config eng) (env, t, v), audio)] \<rparr>"
  have step: "snd (snd (text_to_speech env eng t v)) = ?eng1"
    using text_to_speech_miss[OF Cons.prems(1) syn miss dist] Cons.prems(4) by simp
  have entry: "call_entry (config eng) c = (call_key (config eng) (env, t, v), audio)"
    using syn c by (simp add: call_entry_def)
  have "tts_calls ?eng1 calls
        = ?eng1\<lparr> tts_cache := tts_cache ?eng1 @ map (call_entry (config ?eng1)) calls \<rparr>"
  proof (rule Cons.IH)
    show "elevenlabs_configured ?eng1" using Cons.prems(1) by simp
    show "\<forall>c \<in> set calls. synthesis_result (config ?eng1) c \<noteq> None"
      using Cons.prems(2) by simp
    show "distinct (map fst (tts_cache ?eng1) @ map (call_key (config ?eng1)) calls)"
      using Cons.prems(3) c by simp
    show "length (tts_cache ?eng1) + length calls \<le> 50"
      using Cons.prems(4) by simp
  qed
  then show ?case using step entry c by simp
qed

lemma tts_calls_overflow:
  assumes conf: "elevenlabs_configured eng"
    and empty: "tts_cache eng = []"
    and len: "length calls = 51"
    and dist: "distinct (map (call_key (config eng)) calls)"
    and syn: "\<forall>c \<in> set calls. synthesis_result (config eng) c \<noteq> None"
  shows "tts_cache (tts_calls eng calls) = drop 10 (map (call_entry (config eng)) calls)"
proof -
  from len obtain xs c where calls: "calls = xs @ [c]" and lx: "length xs = 50"
    by (cases calls rule: rev_cases) auto
  obtain env t v where c: "c = (env, t, v)" by (cases c) auto
  let ?eng1 = "eng\<lparr> tts_cache := map (call_entry (config eng)) xs \<rparr>"
  have fill: "tts_calls eng xs = ?eng1"
    using tts_calls_fill[of eng xs] conf empty lx dist syn calls by simp
  from syn calls c obtain audio where a: "synthesis_result (config eng) (env, t, v) = Some audio"
    by auto
  have keys: "map fst (map (call_entry (config eng)) xs) = map (call_key (config eng)) xs"
    by (simp add: call_entry_def comp_def)
  have miss: "call_key (config ?eng1) (env, t, v) \<notin> fst ` set (tts_cache ?eng1)"
  proof -
    have "fst ` set (map (call_entry (config eng)) xs) = set (map (call_key (config eng)) xs)"
      unfolding keys[symmetric] by (simp only: set_map)
    then show ?thesis using dist calls c by simp
  qed
  have d1: "distinct (map fst (tts_cache ?eng1))"
    using dist calls keys by (simp del: map_map)
  have "snd (snd (text_to_speech env ?eng1 t v))
        = ?eng1\<lparr> tts_cache := drop 10 (tts_cache ?eng1 @ [(call_key (config ?eng1) (env, t, v), audio)]) \<rparr>"
    using text_to_speech_miss[of ?eng1 env t v audio] conf a miss d1 lx by simp
  moreover have "call_entry (config eng) c = (call_key (config eng) (env, t, v), audio)"
    using a c by (simp add: call_entry_def)
  ultimately show ?thesis
    using fill calls c by (simp add: tts_calls_append)
qed

lemma del_keys_other:
  "del_keys ks d = (r, d1) \<Longrightarrow> key \<notin> set ks \<Longrightarrow> map_of d1 key = map_of d key"
proof (induction ks arbitrary: d)
  case Nil
  then show ?case by simp
next
  case (Cons k ks)
  show ?case
  proof (cases "dict_del k d")
    case (Inl e)
    with Cons.prems show ?thesis by simp
  next
    case (Inr d2)
    then have d2: "d2 = AList.delete k d" by (simp add: dict_del_def split: if_splits)
    from Cons.prems Inr have "del_keys ks d2 = (r, d1)" and "key \<notin> set ks" and "k \<noteq> key"
      by auto
    with Cons.IH[of d2] d2 show ?thesis by (simp add: delete_conv)
  qed
qed

text \<open>The example engine and its 51 calls.\<close>

lemma demo_tts_engine_simps:
  "elevenlabs_configured demo_tts_engine" "tts_cache demo_tts_engine = []"
  "config demo_tts_engine = default_config"
  by (simp_all add: demo_tts_engine_def demo_engine_def init_def initialize_components_def
        set_elevenlabs_api_key_def demo_env_def)

lemma demo_calls_keys:
  "map (call_key default_config) demo_calls
     = map (\<lambda>i. replicate (Suc i) CHR ''v'' @ '':'' @ str_int 2) [0..<51]"
  by (simp add: demo_calls_def call_key_def cache_key_def py_or_def demo_env_def comp_def)

lemma demo_calls_distinct: "distinct (map (call_key default_config) demo_calls)"
proof -
  have "inj_on (\<lambda>i. replicate (Suc i) CHR ''v'' @ '':'' @ str_int 2) (set [0..<51])"
  proof (rule inj_onI)
    fix i j :: nat
    assume "replicate (Suc i) CHR ''v'' @ '':'' @ str_int 2 = replicate (Suc j) CHR ''v'' @ '':'' @ str_int 2"
    then have "replicate (Suc i) CHR ''v'' = replicate (Suc j) CHR ''v''"
      by (simp only: append_same_eq)
    then have "length (replicate (Suc i) CHR ''v'') = length (replicate (Suc j) CHR ''v'')"
      by (rule arg_cong)
    then show "i = j" by simp
  qed
  then show ?thesis unfolding demo_calls_keys by (simp add: distinct_map)
qed

lemma demo_calls_synthesis:
  "\<forall>c \<in> set demo_calls. synthesis_result default_config c \<noteq> None"
  by (auto simp: demo_calls_def synthesis_result_def demo_env_def)

lemma demo_calls_length: "length demo_calls = 51"
  by (simp add: demo_calls_def)

subsection \<open>C2: the cache never holds more than 50 entries\<close>

text \<open>
  Claim C2. Whatever sequence of \<^verbatim>\<open>text_to_speech\<close> calls is made, and whatever the
  synthesis engine answers to each, a cache of at most 50 entries has at most 50 entries
  after it; in particular this holds from a freshly built engine whose synthesis key has
  been set. When 51 calls with pairwise distinct cache keys, each answered with audio, are
  made on an engine with an empty cache, the cache ends with at most 50 entries and its
  keys are the keys of the calls without the first ten, in the order of insertion: the
  ten oldest keys, and no others, have been removed.
\<close>

theorem tts_cache_bound_and_eviction:
  "(length (tts_cache eng) \<le> 50 \<longrightarrow> length (tts_cache (tts_calls eng calls)) \<le> 50)
   \<and> length (tts_cache (tts_calls
         (snd (snd (set_elevenlabs_api_key env0 (fst (init env0 cfg)) api_key))) calls)) \<le> 50
   \<and> (elevenlabs_configured eng \<and> tts_cache eng = [] \<and> length calls = 51
        \<and> distinct (map (call_key (config eng)) calls)
        \<and> (\<forall>c \<in> set calls. synthesis_result (config eng) c \<noteq> None)
      \<longrightarrow> length (tts_cache (tts_calls eng calls)) \<le> 50
          \<and> map fst (tts_cache (tts_calls eng calls))
              = drop 10 (map (call_key (config eng)) calls))"
proof -
  have fresh: "tts_cache (snd (snd (set_elevenlabs_api_key env0 (fst (init env0 cfg)) api_key))) = []"
    by (simp add: set_elevenlabs_api_key_def init_def initialize_components_def Let_def
          split: option.splits sum.splits)
  have part1: "length (tts_cache eng) \<le> 50 \<longrightarrow> length (tts_cache (tts_calls eng calls)) \<le> 50"
    using tts_calls_bound[of eng calls] by simp
  have part2: "length (tts_cache (tts_calls
         (snd (snd (set_elevenlabs_api_key env0 (fst (init env0 cfg)) api_key))) calls)) \<le> 50"
    by (rule tts_calls_bound) (simp add: fresh)
  have part3: "length (tts_cache (tts_calls eng calls)) \<le> 50
          \<and> map fst (tts_cache (tts_calls eng calls))
              = drop 10 (map (call_key (config eng)) calls)"
    if h: "elevenlabs_configured eng \<and> tts_cache eng = [] \<and> length calls = 51
        \<and> distinct (map (call_key (config eng)) calls)
        \<and> (\<forall>c \<in> set calls. synthesis_result (config eng) c \<noteq> None)"
  proof -
    from h have "tts_cache (tts_calls eng calls) = drop 10 (map (call_entry (config eng)) calls)"
      by (intro tts_calls_overflow) simp_all
    then have "map fst (tts_cache (tts_calls eng calls))
                 = drop 10 (map (call_key (config eng)) calls)"
      by (simp add: drop_map call_entry_def comp_def)
    moreover have "length (tts_cache (tts_calls eng calls)) \<le> 50"
      using h by (intro tts_calls_bound) simp
    ultimately show ?thesis by simp
  qed
  from part1 part2 part3 show ?thesis by blast
qed

theorem tts_cache_bound_and_eviction_witness:
  "length (tts_cache demo_tts_engine) \<le> 50
   \<and> elevenlabs_configured demo_tts_engine \<and> tts_cache demo_tts_engine = []
   \<and> length demo_calls = 51
   \<and> distinct (map (call_key (config demo_tts_engine)) demo_calls)
   \<and> list_all (\<lambda>c. synthesis_result (config demo_tts_engine) c \<noteq> None) demo_calls
   \<and> length (tts_cache (tts_calls demo_tts_engine demo_calls)) \<le> 50
   \<and> map fst (tts_cache (tts_calls demo_tts_engine demo_calls))
       = drop 10 (map (call_key (config demo_tts_engine)) demo_calls)"
  using tts_cache_bound_and_eviction [of demo_tts_engine demo_calls]
    demo_calls_distinct demo_calls_synthesis demo_calls_length
  by (simp add: demo_tts_engine_simps list_all_iff)

subsection \<open>C3: a second identical call is answered from the cache\<close>

text \<open>
  Claim C3. If \<^verbatim>\<open>text_to_speech(text, voice_id)\<close> returns audio bytes, then the same call
  made next, on the engine as the first call left it, returns the same bytes, performs no
  effect at all (in particular no call of the synthesis engine) and leaves the engine as
  it is, whatever the synthesis engine would answer now, a failure included.
\<close>

theorem cache_hit_again:
  assumes "text_to_speech env eng t v = (Some audio, effs, eng1)"
  shows "text_to_speech (env\<lparr> generate := Some gen2 \<rparr>) eng1 t v = (Some audio, [], eng1)"
proof -
  define key where "key = cache_key env (py_or v (elevenlabs_voice_id (config eng))) t"
  have conf: "elevenlabs_configured eng"
    using assms by (auto simp: text_to_speech_def split: if_splits)
  have same: "elevenlabs_configured eng1 \<and> config eng1 = config eng"
    using assms
    by (auto simp: text_to_speech_def Let_def split: if_splits option.splits sum.splits prod.splits)
  have stored: "map_of (tts_cache eng1) key = Some audio"
  proof (cases "map_of (tts_cache eng) key")
    case (Some a)
    with assms conf show ?thesis
      by (auto simp: text_to_speech_def Let_def key_def split: option.splits)
  next
    case None
    then have notin: "key \<notin> fst ` set (tts_cache eng)" by (simp add: map_of_eq_None_iff)
    from assms conf None obtain gen a where gen: "generate env = Some gen"
      and res: "gen t (py_or v (elevenlabs_voice_id (config eng))) (elevenlabs_stability (config eng))
                  (elevenlabs_clarity (config eng)) (elevenlabs_style (config eng)) = Inr a"
      by (auto simp: text_to_speech_def Let_def key_def[symmetric] split: option.splits sum.splits)
    let ?c1 = "AList.update key a (tts_cache eng)"
    have unfolded:
      "(if length ?c1 > 50
        then (case del_keys (take 10 (map fst ?c1)) ?c1 of
                (Some e, cache2) \<Rightarrow>
                  (None, [Generate t (py_or v (elevenlabs_voice_id (config eng))),
                          Log ERROR ''TTS error''], eng\<lparr> tts_cache := cache2 \<rparr>)
              | (None, cache2) \<Rightarrow>
                  (Some a, [Generate t (py_or v (elevenlabs_voice_id (config eng)))],
                   eng\<lparr> tts_cache := cache2 \<rparr>))
        else (Some a, [Generate t (py_or v (elevenlabs_voice_id (config eng)))],
              eng\<lparr> tts_cache := ?c1 \<rparr>))
       = (Some audio, effs, eng1)"
      using assms conf None gen res
      by (simp add: text_to_speech_def Let_def key_def[symmetric])
    have c1: "?c1 = tts_cache eng @ [(key, a)]" using notin by (rule update_append)
    have m1: "map_of ?c1 key = Some a" by (simp add: update_conv')
    show ?thesis
    proof (cases "length ?c1 > 50")
      case False
      with unfolded m1 show ?thesis by auto
    next
      case True
      then have "length (tts_cache eng) \<ge> 10" using c1 by simp
      then have tk: "take 10 (map fst ?c1) = take 10 (map fst (tts_cache eng))"
        using c1 by simp
      have "set (take 10 (map fst (tts_cache eng))) \<subseteq> fst ` set (tts_cache eng)"
        using set_take_subset[of 10 "map fst (tts_cache eng)"] by simp
      with notin tk have nk: "key \<notin> set (take 10 (map fst ?c1))" by auto
      from unfolded True have
        dk: "del_keys (take 10 (map fst ?c1)) ?c1 = (None, tts_cache eng1)" and aa: "a = audio"
        by (auto split: prod.splits option.splits)
      from del_keys_other[OF dk nk] m1 aa show ?thesis by simp
    qed
  qed
  show ?thesis
    using same stored
    by (simp add: text_to_speech_def Let_def key_def cache_key_def)
qed

theorem cache_hit_again_witness:
  "fst (text_to_speech demo_env demo_tts_engine ''hi'' None) = Some (map of_char ''hi'')
   \<and> text_to_speech (demo_env\<lparr> generate := Some failing_generate \<rparr>)
        (snd (snd (text_to_speech demo_env demo_tts_engine ''hi'' None))) ''hi'' None
      = (Some (map of_char ''hi''), [],
         snd (snd (text_to_speech demo_env demo_tts_engine ''hi'' None)))"
proof -
  have f: "fst (text_to_speech demo_env demo_tts_engine ''hi'' None) = Some (map of_char ''hi'')"
    by (simp add: text_to_speech_def demo_tts_engine_simps Let_def demo_env_def)
  then have h: "text_to_speech demo_env demo_tts_engine ''hi'' None
             = (Some (map of_char ''hi''),
                fst (snd (text_to_speech demo_env demo_tts_engine ''hi'' None)),
                snd (snd (text_to_speech demo_env demo_tts_engine ''hi'' None)))"
    by (metis prod.collapse)
  from f cache_hit_again[OF h, of failing_generate] show ?thesis by simp
qed

subsection \<open>C7: a failed synthesis is reported and not cached\<close>

text \<open>
  Claim C7. On a configured engine whose cache does not hold the key of the call, if the
  synthesis engine is available and fails on the call, \<^verbatim>\<open>text_to_speech\<close> returns
  \<^verbatim>\<open>None\<close> and not audio bytes, having called the synthesis engine and logged the error,
  and the engine, its cache included, is unchanged. A later call with the same text and
  voice therefore calls the synthesis engine again: it takes the miss path.
\<close>

theorem failure_not_cached:
  assumes conf: "elevenlabs_configured eng"
    and avail: "generate env \<noteq> None"
    and fail: "synthesis_result (config eng) (env, t, v) = None"
    and miss: "call_key (config eng) (env, t, v) \<notin> fst ` set (tts_cache eng)"
  shows "text_to_speech env eng t v
           = (None, [Generate t (py_or v (elevenlabs_voice_id (config eng))), Log ERROR ''TTS error''], eng)
         \<and> take 1 (fst (snd (text_to_speech (env\<lparr> generate := Some gen2 \<rparr>) eng t v)))
           = [Generate t (py_or v (elevenlabs_voice_id (config eng)))]"
proof -
  have look: "map_of (tts_cache eng) (cache_key env (py_or v (elevenlabs_voice_id (config eng))) t) = None"
    using miss by (simp add: map_of_eq_None_iff call_key_def)
  have first: "text_to_speech env eng t v
           = (None, [Generate t (py_or v (elevenlabs_voice_id (config eng))), Log ERROR ''TTS error''], eng)"
    using conf avail fail look
    by (auto simp: text_to_speech_def Let_def synthesis_result_def split: option.splits sum.splits)
  have second: "take 1 (fst (snd (text_to_speech (env\<lparr> generate := Some gen2 \<rparr>) eng t v)))
           = [Generate t (py_or v (elevenlabs_voice_id (config eng)))]"
    using conf look
    by (auto simp: text_to_speech_def Let_def cache_key_def split: option.splits sum.splits prod.splits)
  from first second show ?thesis by simp
qed

theorem failure_not_cached_witness:
  "text_to_speech (demo_env\<lparr> generate := Some failing_generate \<rparr>) demo_tts_engine ''hi'' None
     = (None, [Generate ''hi'' ''21m00Tcm4TlvDq8ikWAM'', Log ERROR ''TTS error''], demo_tts_engine)
   \<and> take 1 (fst (snd (text_to_speech demo_env demo_tts_engine ''hi'' None)))
     = [Generate ''hi'' ''21m00Tcm4TlvDq8ikWAM'']"
proof -
  let ?env = "demo_env\<lparr> generate := Some failing_generate \<rparr>"
  have 1: "elevenlabs_configured demo_tts_engine" by (simp add: demo_tts_engine_simps)
  have 2: "generate ?env \<noteq> None" by simp
  have 3: "synthesis_result (config demo_tts_engine) (?env, ''hi'', None) = None"
    by (simp add: synthesis_result_def failing_generate_def)
  have 4: "call_key (config demo_tts_engine) (?env, ''hi'', None) \<notin> fst ` set (tts_cache demo_tts_engine)"
    by (simp add: demo_tts_engine_simps)
  from failure_not_cached[OF 1 2 3 4, of "the (generate demo_env)"] show ?thesis
    by (simp add: demo_tts_engine_simps py_or_def default_config_def demo_env_def)
qed

subsection \<open>The example engines, evaluated\<close>

lemma demo_engine_eq:
  "demo_engine = \<lparr> config = default_config, whisper_model = Some hello_whisper,
     vad = Some strict_vad, elevenlabs_configured = False, is_listening = False,
     recording_thread = False, on_speech_detected = None, on_listening_start = None,
     on_listening_stop = None, tts_cache = [] \<rparr>"
  by (simp add: demo_engine_def init_def initialize_components_def demo_env_def)

lemma odd_rate_engine_eq:
  "odd_rate_engine = \<lparr> config = odd_rate_config, whisper_model = Some hello_whisper,
     vad = Some strict_vad, elevenlabs_configured = False, is_listening = False,
     recording_thread = False, on_speech_detected = None, on_listening_start = None,
     on_listening_stop = None, tts_cache = [] \<rparr>"
  by (simp add: odd_rate_engine_def init_def initialize_components_def demo_env_def)

lemma odd_frame: "frame_size odd_rate_config = 1323"
  by (simp add: frame_size_def odd_rate_config_def default_config_def py_int_def)

lemma odd_rate: "sample_rate odd_rate_config = 44100"
  by (simp add: odd_rate_config_def)

lemma demo_frame: "frame_size default_config = 480"
  by (simp add: frame_size_def default_config_def py_int_def)

lemma demo_rate: "sample_rate default_config = 16000"
  by (simp add: default_config_def)

subsection \<open>C4: a failing recognition engine produces no event and does not stop the loop\<close>

lemma transcribe_fails:
  "recognition_fails eng audio \<Longrightarrow> fst (transcribe_audio eng audio) = []"
  by (auto simp: recognition_fails_def transcribe_audio_def isl_def split: option.splits)

lemma transcribe_effects_no_event:
  "filter is_speech_event (snd (transcribe_audio eng audio)) = []"
  by (simp add: transcribe_audio_def is_speech_event_def split: option.splits sum.splits)

lemma process_fails:
  assumes "recognition_fails eng (concat buf)"
  shows "filter is_speech_event (snd (process_audio_buffer eng buf)) = []"
proof -
  obtain t effs where tr: "transcribe_audio eng (concat buf) = (t, effs)"
    by (cases "transcribe_audio eng (concat buf)")
  from transcribe_fails[OF assms] tr have t: "t = []" by simp
  from transcribe_effects_no_event[of eng "concat buf"] tr have "filter is_speech_event effs = []"
    by simp
  with tr t show ?thesis by (simp add: process_audio_buffer_def)
qed

lemma is_speech_no_event: "filter is_speech_event (snd (is_speech eng bs)) = []"
  by (simp add: is_speech_def is_speech_event_def split: option.splits sum.splits)

lemma loop_no_event:
  assumes "\<forall>audio. recognition_fails eng audio"
  shows "filter is_speech_event (effects (recording_iterations env eng m st qs)) = []"
  using assms
proof (induction env eng m st qs rule: recording_iterations.induct)
  case (1 env eng m st)
  then show ?case by simp
next
  case (2 env eng m st qs)
  then show ?case by simp
next
  case (3 env eng m st chunk qs)
  obtain sp e1 where sp: "is_speech eng (tobytes (map (pcm16 env) chunk)) = (sp, e1)"
    by (cases "is_speech eng (tobytes (map (pcm16 env) chunk))")
  have e1: "filter is_speech_event e1 = []"
    using is_speech_no_event[of eng "tobytes (map (pcm16 env) chunk)"] sp by simp
  obtain st1 out where ls: "loop_step m st chunk sp = (st1, out)"
    by (cases "loop_step m st chunk sp")
  show ?case
  proof (cases out)
    case None
    with 3(1)[OF sp[symmetric] ls[symmetric]] 3(3) sp ls e1 show ?thesis
      by (simp add: Let_def)
  next
    case (Some buf)
    obtain e2 where pb: "process_audio_buffer eng buf = (None, e2)"
      using process_audio_buffer_returns[of eng buf]
      by (cases "process_audio_buffer eng buf") auto
    have e2: "filter is_speech_event e2 = []"
      using process_fails[of eng buf] 3(3) pb by simp
    with 3(2)[OF sp[symmetric] ls[symmetric] Some pb[symmetric]] 3(3) sp ls Some pb e1 show ?thesis
      by (simp add: Let_def)
  qed
qed

text \<open>
  Claim C4. When the recognition engine fails on the audio of an utterance, because it is
  not available or because its call raises, \<^verbatim>\<open>_transcribe_audio\<close> returns the empty text,
  and \<^verbatim>\<open>_process_audio_buffer\<close> returns normally without calling the speech callback.
  With an engine that fails on every audio, the recording loop is not left by a
  \<^verbatim>\<open>break\<close>: it runs until listening stops, hands over every utterance of the whole
  stream, and no speech-detected event appears among its effects.
\<close>

theorem recognition_failure_is_silent:
  "(recognition_fails eng audio \<longrightarrow> fst (transcribe_audio eng audio) = [])
   \<and> (recognition_fails eng (concat buf) \<longrightarrow>
        fst (process_audio_buffer eng buf) = None
        \<and> filter is_speech_event (snd (process_audio_buffer eng buf)) = [])
   \<and> ((\<forall>a. recognition_fails eng a) \<longrightarrow>
        exit_reason (recording_iterations env eng m st qs) = Stopped
        \<and> utterances (recording_iterations env eng m st qs)
            = snd (feed_frames m st (classified env eng qs))
        \<and> filter is_speech_event (effects (recording_iterations env eng m st qs)) = [])"
  using transcribe_fails[of eng audio] process_fails[of eng buf]
    process_audio_buffer_returns[of eng buf] recording_iterations_feed[of env eng m st qs]
    loop_no_event[of eng env m st qs]
  by blast

theorem recognition_failure_is_silent_witness:
  "(\<forall>a. recognition_fails deaf_engine a)
   \<and> fst (transcribe_audio deaf_engine [1, 2]) = []
   \<and> fst (process_audio_buffer deaf_engine [[1, 2], [0, 0]]) = None
   \<and> filter is_speech_event (snd (process_audio_buffer deaf_engine [[1, 2], [0, 0]])) = []
   \<and> exit_reason (recording_iterations demo_env deaf_engine 0 idle [Got [1, 2], Got [3]])
       = Stopped
   \<and> utterances (recording_iterations demo_env deaf_engine 0 idle [Got [1, 2], Got [3]])
       = [[[1, 2]], [[3]]]
   \<and> filter is_speech_event
        (effects (recording_iterations demo_env deaf_engine 0 idle [Got [1, 2], Got [3]])) = []"
proof -
  have deaf: "\<forall>a. recognition_fails deaf_engine a"
    by (simp add: recognition_fails_def deaf_engine_def failing_whisper_def)
  have cl: "classified demo_env deaf_engine [Got [1, 2], Got [3]] = [([1, 2], True), ([3], True)]"
    by (simp add: classified_def is_speech_def deaf_engine_def)
  from recognition_failure_is_silent
         [of deaf_engine "[1, 2]" "[[1, 2], [0, 0]]" demo_env 0 idle "[Got [1, 2], Got [3]]"]
       deaf
  show ?thesis by (simp add: cl loop_step_def idle_def)
qed

subsection \<open>C5: without a classifier every chunk is speech\<close>

lemma feed_all_speech:
  "1 \<le> m \<Longrightarrow> feed_frames m st (map (\<lambda>c. (c, True)) cs)
     = (if cs = [] then st else \<lparr> audio_buffer = audio_buffer st @ cs, silence_chunks = 0 \<rparr>, [])"
proof (induction cs arbitrary: st)
  case Nil
  then show ?case by simp
next
  case (Cons c cs)
  have step: "loop_step m st c True = (\<lparr> audio_buffer = audio_buffer st @ [c], silence_chunks = 0 \<rparr>, None)"
    using Cons.prems by (simp add: loop_step_def)
  show ?case using Cons.IH[OF Cons.prems] step by simp
qed

text \<open>
  The claim as stated fails when the silence threshold is below one frame: with a
  threshold of zero and no classifier, two chunks leave the loop as two utterances.
\<close>

theorem no_vad_zero_threshold_splits:
  "vad (fst (init no_vad_env (Some zero_threshold_config))) = None
   \<and> utterances (recording_loop no_vad_env (fst (init no_vad_env (Some zero_threshold_config)))
         None [Got [1, 2], Got [3, 4]])
      = [[[1, 2]], [[3, 4]]]"
  by (simp add: recording_loop_def max_silence_chunks_def zero_threshold_config_def
       default_config_def py_int_def
       is_speech_def loop_step_def idle_def process_audio_buffer_def transcribe_audio_def
       no_vad_env_def init_def initialize_components_def demo_env_def hello_whisper_def
       py_strip_def is_space_def Let_def)

text \<open>
  Claim C5, amended. When no classifier is configured, \<^verbatim>\<open>_is_speech\<close> answers speech
  for every chunk. Consequently, whenever the silence threshold is at least one frame (as
  with the default of four), a stream of chunks read while the classifier is missing is
  never split: the loop hands over no utterance at all, all chunks stay in the one open
  buffer in their order of arrival, and the loop runs until listening stops.
\<close>

theorem no_vad_never_splits:
  assumes "vad eng = None" and "max_silence_chunks (config eng) = Inr m" and "1 \<le> m"
  shows "fst (is_speech eng audio_bytes) = True
    \<and> utterances (recording_loop env eng None qs) = []
    \<and> audio_buffer (final_state (recording_loop env eng None qs)) = chunks_of qs
    \<and> exit_reason (recording_loop env eng None qs) = Stopped"
proof -
  have cl: "classified env eng qs = map (\<lambda>c. (c, True)) (chunks_of qs)"
    using assms(1) by (simp add: classified_def is_speech_def)
  have "feed_frames m idle (classified env eng qs)
        = (if chunks_of qs = [] then idle else \<lparr> audio_buffer = audio_buffer idle @ chunks_of qs, silence_chunks = 0 \<rparr>, [])"
    unfolding cl using assms(3) by (rule feed_all_speech)
  with recording_iterations_feed[of env eng m idle qs] assms(1,2) show ?thesis
    by (simp add: recording_loop_def is_speech_def idle_def)
qed

theorem no_vad_never_splits_witness:
  "vad (fst (init no_vad_env None)) = None
   \<and> max_silence_chunks (config (fst (init no_vad_env None))) = Inr 4 \<and> (1::int) \<le> 4
   \<and> fst (is_speech (fst (init no_vad_env None)) [0, 0]) = True
   \<and> utterances (recording_loop no_vad_env (fst (init no_vad_env None)) None
         [Got [1, 2], QueueEmpty, Got [3, 4]]) = []
   \<and> audio_buffer (final_state (recording_loop no_vad_env (fst (init no_vad_env None)) None
         [Got [1, 2], QueueEmpty, Got [3, 4]])) = [[1, 2], [3, 4]]
   \<and> exit_reason (recording_loop no_vad_env (fst (init no_vad_env None)) None
         [Got [1, 2], QueueEmpty, Got [3, 4]]) = Stopped"
proof -
  have 1: "vad (fst (init no_vad_env None)) = None"
    by (simp add: init_def initialize_components_def no_vad_env_def demo_env_def)
  have 2: "max_silence_chunks (config (fst (init no_vad_env None))) = Inr 4"
    by (simp add: init_def initialize_components_def no_vad_env_def demo_env_def
          max_silence_chunks_def default_config_def py_int_def)
  have 3: "(1::int) \<le> 4" by simp
  from no_vad_never_splits[OF 1 2 3, of "[0, 0]" no_vad_env "[Got [1, 2], QueueEmpty, Got [3, 4]]"] 1 2
  show ?thesis by simp
qed

subsection \<open>C6: an empty buffer handed to the emission step\<close>

text \<open>
  The claim as stated fails: handed an empty buffer, \<^verbatim>\<open>_process_audio_buffer\<close> of the
  example engine returns normally and does nothing.
\<close>

theorem empty_buffer_not_rejected: "process_audio_buffer demo_engine [] = (None, [])"
  by (simp add: process_audio_buffer_def)

text \<open>
  Claim C6, amended. An empty audio buffer handed to the emission step is ignored
  silently: \<^verbatim>\<open>_process_audio_buffer\<close> returns at once, no exception leaves it, nothing is
  logged, and neither the recognition engine nor the speech callback is called.
\<close>

theorem empty_buffer_ignored: "process_audio_buffer eng [] = (None, [])"
  by (simp add: process_audio_buffer_def)

subsection \<open>C8: starting twice and stopping twice\<close>

text \<open>
  Claim C8. \<^verbatim>\<open>start_listening\<close> on an engine that is already listening changes nothing:
  the engine is returned as it is, the only effect is the warning in the log, so no second
  thread is started and the listening-start callback is not called again.
  \<^verbatim>\<open>stop_listening\<close> on an engine that is not listening changes nothing and has no effect
  at all, so the listening-stop callback is not called.
\<close>

theorem start_stop_idempotent:
  "(is_listening eng \<longrightarrow>
      start_listening env eng callback = (None, [Log WARNING ''Already listening''], eng))
   \<and> (\<not> is_listening eng \<longrightarrow> stop_listening eng = (None, [], eng))"
  by (simp add: start_listening_def stop_listening_def)

theorem start_stop_idempotent_witness:
  "is_listening (snd (snd (start_listening demo_env demo_engine None)))
   \<and> start_listening demo_env (snd (snd (start_listening demo_env demo_engine None))) None
       = (None, [Log WARNING ''Already listening''],
          snd (snd (start_listening demo_env demo_engine None)))
   \<and> \<not> is_listening demo_engine
   \<and> stop_listening demo_engine = (None, [], demo_engine)"
proof -
  have 1: "is_listening (snd (snd (start_listening demo_env demo_engine None)))"
    by (simp add: start_listening_def demo_engine_eq demo_env_def)
  have 2: "\<not> is_listening demo_engine" by (simp add: demo_engine_eq)
  from start_stop_idempotent[of "snd (snd (start_listening demo_env demo_engine None))" demo_env None] 1
    start_stop_idempotent[of demo_engine demo_env None] 2
  show ?thesis by simp
qed

subsection \<open>C9 and C10: the frame the classifier sees\<close>

lemma frame_size_nonneg:
  "0 \<le> sample_rate cfg \<Longrightarrow> frame_size cfg = sample_rate cfg * 30 div 1000"
proof -
  assume a: "0 \<le> sample_rate cfg"
  have "(of_int (sample_rate cfg * 30) / 1000 :: rat) = of_int (sample_rate cfg * 30) / of_int 1000"
    by simp
  then have "\<lfloor>(of_int (sample_rate cfg * 30) / 1000 :: rat)\<rfloor> = sample_rate cfg * 30 div 1000"
    by (simp only: floor_divide_of_int_eq)
  moreover have "(0::rat) \<le> of_int (sample_rate cfg * 30) / 1000" using a by simp
  ultimately show ?thesis by (simp add: frame_size_def py_int_def)
qed

lemma take_tobytes: "take (2 * n) (tobytes ws) = tobytes (take n ws)"
proof (induction ws arbitrary: n)
  case Nil
  then show ?case by (simp add: tobytes_def)
next
  case (Cons w ws)
  show ?case
  proof (cases n)
    case 0
    then show ?thesis by (simp add: tobytes_def)
  next
    case (Suc k)
    with Cons[of k] show ?thesis by (simp add: tobytes_def)
  qed
qed

lemma take_eq_length:
  assumes "take n a = take n b"
  shows "(length a < n) = (length b < n)"
proof -
  from assms have "length (take n a) = length (take n b)" by simp
  then show ?thesis by (auto simp: min_def split: if_splits)
qed

lemma is_speech_frame:
  assumes v: "vad eng = Some v" and fs: "frame_size (config eng) = int n"
  shows "is_speech eng x =
      (if length x < 2 * n then (False, [])
       else (case v (take (2 * n) x) (sample_rate (config eng)) of
               Inl e \<Rightarrow> (True, [Log ERROR ''VAD error'']) | Inr b \<Rightarrow> (b, [])))"
proof -
  have lt: "(int (length x) < int n * 2) = (length x < 2 * n)" by auto
  have sl: "py_slice_to x (int n * 2) = take (2 * n) x"
    by (simp add: py_slice_to_def nat_mult_distrib mult.commute)
  show ?thesis unfolding is_speech_def v fs lt sl by simp
qed

lemma init_shape:
  "init env (Some (cfg\<lparr> sample_rate := r, chunk_duration := d \<rparr>))
     = (case init env (Some cfg) of
          (eng, effs) \<Rightarrow> (eng\<lparr> config := cfg\<lparr> sample_rate := r, chunk_duration := d \<rparr> \<rparr>, effs))"
  by (simp add: init_def initialize_components_def Let_def split: option.splits sum.splits)

lemma start_listening_shape:
  "start_listening env (eng\<lparr> config := (config eng)\<lparr> sample_rate := r, chunk_duration := d \<rparr> \<rparr>) callback
     = (case start_listening env eng callback of
          (res, effs, eng1) \<Rightarrow>
            (res, effs, eng1\<lparr> config := (config eng)\<lparr> sample_rate := r, chunk_duration := d \<rparr> \<rparr>))"
  by (simp add: start_listening_def Let_def split: option.splits)

text \<open>
  The claim as stated fails: an engine is built with a sample rate of 44100 Hz, which the
  classifier does not support, without any error, listening starts on it, and the shape
  is dealt with chunk by chunk: the classifier raises on the first frame of a full chunk,
  which is logged and answered with speech, and a chunk shorter than a frame is skipped
  as non-speech.
\<close>

theorem unsupported_rate_accepted_at_startup:
  "init demo_env (Some odd_rate_config)
     = (odd_rate_engine,
        [Log INFO ''Loading Whisper model'', Log INFO ''Whisper model loaded successfully'',
         Log INFO ''Voice Activity Detection initialized''])
   \<and> start_listening demo_env odd_rate_engine None
     = (None, [ThreadStart, Log INFO ''Started listening for speech''],
        odd_rate_engine\<lparr> is_listening := True, recording_thread := True \<rparr>)
   \<and> is_speech odd_rate_engine (replicate 44100 0) = (True, [Log ERROR ''VAD error''])
   \<and> is_speech odd_rate_engine [0, 0] = (False, [])"
proof -
  have 1: "init demo_env (Some odd_rate_config)
     = (odd_rate_engine,
        [Log INFO ''Loading Whisper model'', Log INFO ''Whisper model loaded successfully'',
         Log INFO ''Voice Activity Detection initialized''])"
    by (simp add: odd_rate_engine_def init_def initialize_components_def demo_env_def)
  have 2: "start_listening demo_env odd_rate_engine None
     = (None, [ThreadStart, Log INFO ''Started listening for speech''],
        odd_rate_engine\<lparr> is_listening := True, recording_thread := True \<rparr>)"
    by (simp add: start_listening_def odd_rate_engine_eq demo_env_def)
  have 3: "is_speech odd_rate_engine (replicate 44100 0) = (True, [Log ERROR ''VAD error''])"
    by (simp add: is_speech_def odd_rate_engine_eq odd_frame odd_rate py_slice_to_def
          strict_vad_def)
  have 4: "is_speech odd_rate_engine [0, 0] = (False, [])"
    by (simp add: is_speech_def odd_rate_engine_eq odd_frame)
  from 1 2 3 4 show ?thesis by simp
qed

text \<open>
  Claim C9, amended. No frame shape is checked at startup: neither
  \<^verbatim>\<open>_initialize_components\<close> nor \<^verbatim>\<open>start_listening\<close> reads the sample rate or the chunk
  duration. Building the engine with another sample rate and chunk duration gives the
  same components and the same log lines, only the stored configuration differs; and
  \<^verbatim>\<open>start_listening\<close> on an engine whose sample rate and chunk duration are replaced
  gives the same result, the same effects and the same engine apart from these two
  values. The shape is handled for each chunk inside
  \<^verbatim>\<open>_is_speech\<close>: a chunk shorter than one 30 ms frame is classified as non-speech;
  otherwise only \<^verbatim>\<open>audio_bytes[:frame_size * 2]\<close> is passed to the classifier, and when
  the classifier raises on it the error is logged and the chunk is classified as speech,
  otherwise the classifier's answer is returned.
\<close>

theorem frame_shape_handled_per_chunk:
  "init env (Some (cfg\<lparr> sample_rate := r, chunk_duration := d \<rparr>))
     = (case init env (Some cfg) of
          (eng0, effs) \<Rightarrow> (eng0\<lparr> config := cfg\<lparr> sample_rate := r, chunk_duration := d \<rparr> \<rparr>, effs))
   \<and> start_listening env (eng\<lparr> config := (config eng)\<lparr> sample_rate := r, chunk_duration := d \<rparr> \<rparr>) callback
     = (case start_listening env eng callback of
          (res, effs, eng1) \<Rightarrow>
            (res, effs, eng1\<lparr> config := (config eng)\<lparr> sample_rate := r, chunk_duration := d \<rparr> \<rparr>))
   \<and> (vad eng = Some v \<and> int (length bs) < frame_size (config eng) * 2
        \<longrightarrow> is_speech eng bs = (False, []))
   \<and> (vad eng = Some v \<and> \<not> int (length bs) < frame_size (config eng) * 2
        \<and> v (py_slice_to bs (frame_size (config eng) * 2)) (sample_rate (config eng)) = Inl e
        \<longrightarrow> is_speech eng bs = (True, [Log ERROR ''VAD error'']))
   \<and> (vad eng = Some v \<and> \<not> int (length bs) < frame_size (config eng) * 2
        \<and> v (py_slice_to bs (frame_size (config eng) * 2)) (sample_rate (config eng)) = Inr b
        \<longrightarrow> is_speech eng bs = (b, []))"
  using init_shape[where env = env and cfg = cfg and r = r and d = d]
    start_listening_shape[where env = env and eng = eng and r = r and d = d and callback = callback]
  by (simp add: is_speech_def)

theorem frame_shape_handled_per_chunk_witness:
  "start_listening demo_env
       (demo_engine\<lparr> config := (config demo_engine)\<lparr> sample_rate := 44100, chunk_duration := 1 / 2 \<rparr> \<rparr>)
       None
     = (None, [ThreadStart, Log INFO ''Started listening for speech''],
        demo_engine\<lparr> config := (config demo_engine)\<lparr> sample_rate := 44100, chunk_duration := 1 / 2 \<rparr>,
                     is_listening := True, recording_thread := True \<rparr>)
   \<and> is_speech odd_rate_engine [0, 0] = (False, [])
   \<and> is_speech odd_rate_engine (replicate 44100 0) = (True, [Log ERROR ''VAD error''])
   \<and> is_speech demo_engine (replicate 16000 0) = (False, [])"
proof -
  have v: "vad odd_rate_engine = Some strict_vad" "config odd_rate_engine = odd_rate_config"
    by (simp_all add: odd_rate_engine_eq)
  have s: "sample_rate odd_rate_config = 44100" by (simp add: odd_rate_config_def)
  have st: "start_listening demo_env demo_engine None
      = (None, [ThreadStart, Log INFO ''Started listening for speech''],
         demo_engine\<lparr> is_listening := True, recording_thread := True \<rparr>)"
    by (simp add: start_listening_def demo_engine_eq demo_env_def)
  have 0: "start_listening demo_env
       (demo_engine\<lparr> config := (config demo_engine)\<lparr> sample_rate := 44100, chunk_duration := 1 / 2 \<rparr> \<rparr>)
       None
     = (None, [ThreadStart, Log INFO ''Started listening for speech''],
        demo_engine\<lparr> config := (config demo_engine)\<lparr> sample_rate := 44100, chunk_duration := 1 / 2 \<rparr>,
                     is_listening := True, recording_thread := True \<rparr>)"
    using frame_shape_handled_per_chunk[where env = demo_env and cfg = default_config and r = 44100 and d = "1 / 2"
             and eng = demo_engine and callback = None and v = strict_vad and bs = "[0, 0]"
             and e = KeyError and b = True]
    by (simp add: st)
  have 1: "is_speech odd_rate_engine [0, 0] = (False, [])"
    using frame_shape_handled_per_chunk[where env = demo_env and cfg = default_config and r = 44100 and d = "1 / 2"
             and eng = odd_rate_engine and callback = None and v = strict_vad and bs = "[0, 0]"
             and e = KeyError and b = True]
    by (simp add: v odd_frame)
  have 2: "is_speech odd_rate_engine (replicate 44100 0) = (True, [Log ERROR ''VAD error''])"
    using frame_shape_handled_per_chunk[where env = demo_env and cfg = default_config and r = 44100 and d = "1 / 2"
             and eng = odd_rate_engine and callback = None and v = strict_vad
             and bs = "replicate 44100 0"
             and e = "ExternalError ''Error while processing frame''" and b = True]
    by (simp add: v s odd_frame py_slice_to_def strict_vad_def)
  have 3: "is_speech demo_engine (replicate 16000 0) = (False, [])"
    using frame_shape_handled_per_chunk[where env = demo_env and cfg = default_config and r = 44100 and d = "1 / 2"
             and eng = demo_engine and callback = None and v = strict_vad
             and bs = "replicate 16000 0" and b = False and e = KeyError]
    by (simp add: demo_engine_eq demo_frame demo_rate py_slice_to_def strict_vad_def)
  from 0 1 2 3 show ?thesis by simp
qed

text \<open>
  Claim C10. With a classifier configured and a sample rate that is not negative, the
  answer of \<^verbatim>\<open>_is_speech\<close> depends only on the first 30 ms of the chunk, that is on its
  first \<open>sample_rate * 30 div 1000\<close> int16 samples (twice as many bytes): two chunks that
  agree there get the same answer, whatever follows. A chunk shorter than one such
  frame is classified as non-speech.
\<close>

theorem first_frame_decides:
  assumes v: "vad eng = Some v" and sr: "0 \<le> sample_rate (config eng)"
  shows "(take (2 * nat (sample_rate (config eng) * 30 div 1000)) a
            = take (2 * nat (sample_rate (config eng) * 30 div 1000)) b
          \<longrightarrow> is_speech eng a = is_speech eng b)
       \<and> (take (nat (sample_rate (config eng) * 30 div 1000)) ws1
            = take (nat (sample_rate (config eng) * 30 div 1000)) ws2
          \<longrightarrow> is_speech eng (tobytes ws1) = is_speech eng (tobytes ws2))
       \<and> (length a < 2 * nat (sample_rate (config eng) * 30 div 1000)
          \<longrightarrow> is_speech eng a = (False, []))"
proof -
  define n where "n = nat (sample_rate (config eng) * 30 div 1000)"
  have "0 \<le> sample_rate (config eng) * 30 div 1000"
    using sr by (intro pos_imp_zdiv_nonneg_iff[THEN iffD2]) simp_all
  then have fs: "frame_size (config eng) = int n"
    using frame_size_nonneg[OF sr] by (simp add: n_def)
  note unf = is_speech_frame[OF v fs]
  have bytes: "take (2 * n) x = take (2 * n) y \<Longrightarrow> is_speech eng x = is_speech eng y" for x y
    using take_eq_length[of "2 * n" x y] by (simp add: unf)
  have samples: "take n ws1 = take n ws2 \<Longrightarrow> is_speech eng (tobytes ws1) = is_speech eng (tobytes ws2)"
    by (rule bytes) (simp add: take_tobytes)
  from bytes[of a b] samples unf[of a] show ?thesis unfolding n_def[symmetric] by simp
qed

theorem first_frame_decides_witness:
  "vad demo_engine = Some strict_vad \<and> 0 \<le> sample_rate (config demo_engine)
   \<and> is_speech demo_engine (replicate 960 1 @ [5]) = is_speech demo_engine (replicate 960 1 @ [7, 8])
   \<and> is_speech demo_engine (tobytes (replicate 480 1 @ [5]))
       = is_speech demo_engine (tobytes (replicate 480 1 @ [7, 8]))
   \<and> is_speech demo_engine [1, 2] = (False, [])"
proof -
  have 1: "vad demo_engine = Some strict_vad" by (simp add: demo_engine_eq)
  have 2: "0 \<le> sample_rate (config demo_engine)" by (simp add: demo_engine_eq default_config_def)
  have n: "nat (sample_rate (config demo_engine) * 30 div 1000) = 480"
    by (simp add: demo_engine_eq default_config_def)
  from first_frame_decides[OF 1 2, of "replicate 960 1 @ [5]" "replicate 960 1 @ [7, 8]"
             "replicate 480 1 @ [5]" "replicate 480 1 @ [7, 8]", unfolded n]
       first_frame_decides[OF 1 2, of "[1, 2]" "[1, 2]" "[]" "[]", unfolded n] 1 2
  show ?thesis by simp
qed

end
